theory Spec2Isabelle
  imports Main "HOL-Library.Word"
begin

unbundle bit_operations_syntax

section \<open>The raw-wire transport as seen from \<^verbatim>\<open>pic18.py\<close>\<close>

text \<open>
  \<^verbatim>\<open>PIC18\<close> extends \<^verbatim>\<open>RawWire\<close>, which is not part of the sources. Every call the
  class makes on that base (the line setters, \<^verbatim>\<open>write_bits\<close>, \<^verbatim>\<open>write\<close>,
  \<^verbatim>\<open>read\<close>, \<^verbatim>\<open>clocks\<close>) and \<^verbatim>\<open>time.sleep\<close> is recorded as one event, oldest first.
  The bytes the target answers to \<^verbatim>\<open>read\<close> are a parameter of the model: an
  infinite sequence (byte \<open>k\<close> of what is still to come), consumed from the front.
  The transport itself is taken to work: each of its calls returns, and \<^verbatim>\<open>read(n)\<close>
  returns \<open>n\<close> bytes. What can go wrong in the model is what \<^verbatim>\<open>pic18.py\<close> itself
  raises, and the unbounded wait for the target in \<^verbatim>\<open>write\<close>.
\<close>

type_synonym byte = "8 word"

datatype event =
    Sda nat              \<comment> \<open>\<^verbatim>\<open>self.sda = v\<close> (PGD)\<close>
  | Clk nat              \<comment> \<open>\<^verbatim>\<open>self.clk = v\<close> (PGC)\<close>
  | Aux nat nat          \<comment> \<open>\<^verbatim>\<open>self.AUX[i].value = v\<close>\<close>
  | WriteBits byte nat   \<comment> \<open>\<^verbatim>\<open>super().write_bits(cmd, n)\<close>\<close>
  | Write "byte list"    \<comment> \<open>\<^verbatim>\<open>super().write(data)\<close>\<close>
  | Read nat             \<comment> \<open>\<^verbatim>\<open>super().read(n)\<close>\<close>
  | Clocks nat           \<comment> \<open>\<^verbatim>\<open>self.clocks(n)\<close>\<close>
  | Sleep nat            \<comment> \<open>\<^verbatim>\<open>time.sleep(n)\<close>\<close>

record state =
  trace :: "event list"                  \<comment> \<open>transport calls made so far\<close>
  rx :: "nat \<Rightarrow> byte"                   \<comment> \<open>bytes the target will answer\<close>
  stdout :: "(string \<times> nat \<times> nat) list"   \<comment> \<open>printed lines: label, counter, value\<close>
  little_endian :: bool                  \<comment> \<open>\<^verbatim>\<open>sys.byteorder\<close> of the host, read by \<^verbatim>\<open>unpack\<close>\<close>

datatype error = ValueError | OverflowError | UnboundLocalError | StructError

definition emit :: "state \<Rightarrow> event \<Rightarrow> state" where
  "emit s e = s\<lparr>trace := trace s @ [e]\<rparr>"

text \<open>\<^verbatim>\<open>super().read(n)\<close>: the call is recorded and the next \<open>n\<close> bytes of the target's
  answer are returned.\<close>

definition wire_read :: "state \<Rightarrow> nat \<Rightarrow> byte list \<times> state" where
  "wire_read s n =
     (map (rx s) [0..<n], s\<lparr>trace := trace s @ [Read n], rx := (\<lambda>k. rx s (k + n))\<rparr>)"

section \<open>Python built-ins used by the class\<close>

text \<open>\<^verbatim>\<open>xs[i:j]\<close> and \<^verbatim>\<open>xs[i:]\<close>, with Python's clamping of the bounds and its
  counting of negative bounds from the end.\<close>

definition slice_bound :: "int \<Rightarrow> int \<Rightarrow> nat" where
  "slice_bound n i = nat (if i < 0 then max (n + i) 0 else min i n)"

definition slice :: "int \<Rightarrow> int \<Rightarrow> 'a list \<Rightarrow> 'a list" where
  "slice i j xs =
     (let n = int (length xs); a = slice_bound n i; b = slice_bound n j
      in take (b - a) (drop a xs))"

definition slice_from :: "int \<Rightarrow> 'a list \<Rightarrow> 'a list" where
  "slice_from i xs = drop (slice_bound (int (length xs)) i) xs"

text \<open>\<^verbatim>\<open>range(start, stop, step)\<close> for a positive step.\<close>

definition py_range :: "int \<Rightarrow> int \<Rightarrow> int \<Rightarrow> int list" where
  "py_range start stop step = filter (\<lambda>i. (i - start) mod step = 0) [start..stop - 1]"

text \<open>\<^verbatim>\<open>a.to_bytes(n, byteorder='big')\<close>: raises \<^verbatim>\<open>OverflowError\<close> when \<open>a\<close> is negative
  or does not fit in \<open>n\<close> bytes.\<close>

definition to_bytes :: "int \<Rightarrow> nat \<Rightarrow> error + byte list" where
  "to_bytes a n =
     (if a < 0 \<or> 2 ^ (8 * n) \<le> a then Inl OverflowError
      else Inr (map (\<lambda>k. word_of_int (a div 2 ^ (8 * k))) (rev [0..<n])))"

text \<open>\<^verbatim>\<open>int.from_bytes(bs, byteorder="big")\<close>.\<close>

definition from_bytes :: "byte list \<Rightarrow> nat" where
  "from_bytes bs = foldl (\<lambda>acc b. acc * 256 + unat b) 0 bs"

section \<open>Programming-mode entry and exit\<close>

definition enter_prog :: "state \<Rightarrow> state" where
  "enter_prog s =
     (let s = emit s (Sda 0);
          s = emit s (Clk 0);
          s = emit s (Aux 1 1);
          s = emit s (Aux 0 1)
      in s)"

definition exit_prog :: "state \<Rightarrow> state" where
  "exit_prog s =
     (let s = emit s (Sda 0);
          s = emit s (Clk 0);
          s = emit s (Aux 0 0);
          s = emit s (Aux 1 0)
      in s)"

section \<open>Command encoder\<close>

definition send_cmd :: "state \<Rightarrow> byte \<Rightarrow> byte list \<Rightarrow> state" where
  "send_cmd s cmd payload =
     (let s = emit s (WriteBits cmd 4)
      in if int (length payload) mod 2 = 0
         then (let s = emit s (Write (slice 1 2 payload));
                   s = emit s (Write (slice 0 1 payload))
               in s)
         else emit s (Write (slice 0 1 payload)))"

definition nop :: "state \<Rightarrow> int \<Rightarrow> state" where
  "nop s repeat = fold (\<lambda>_ s. send_cmd s 0x00 [0x00, 0x00]) (py_range 0 repeat 1) s"

section \<open>Register sequencer\<close>

definition set_eeaddr :: "state \<Rightarrow> int \<Rightarrow> (error + unit) \<times> state" where
  "set_eeaddr s address =
     (case to_bytes address 2 of
        Inl e \<Rightarrow> (Inl e, s)
      | Inr EEADDR \<Rightarrow>
          (let s = send_cmd s 0x00 ([0x0E] @ slice 0 1 EEADDR);
               s = send_cmd s 0x00 [0x6E, 0xAA];
               s = send_cmd s 0x00 ([0x0E] @ slice 1 2 EEADDR);
               s = send_cmd s 0x00 [0x6E, 0xA9]
           in (Inr (), s)))"

definition set_tblptr :: "state \<Rightarrow> int \<Rightarrow> (error + unit) \<times> state" where
  "set_tblptr s address =
     (case to_bytes address 3 of
        Inl e \<Rightarrow> (Inl e, s)
      | Inr TBLPTR \<Rightarrow>
          (let s = send_cmd s 0x00 ([0x0E] @ slice 0 1 TBLPTR);
               s = send_cmd s 0x00 [0x6E, 0xF8];
               s = send_cmd s 0x00 ([0x0E] @ slice 1 2 TBLPTR);
               s = send_cmd s 0x00 [0x6E, 0xF7];
               s = send_cmd s 0x00 ([0x0E] @ slice 2 3 TBLPTR);
               s = send_cmd s 0x00 [0x6E, 0xF6]
           in (Inr (), s)))"

definition poll_wr :: "state \<Rightarrow> nat \<times> state" where
  "poll_wr s =
     (let s = send_cmd s 0x00 [0x50, 0xA6];
          s = send_cmd s 0x00 [0x6E, 0xF5];
          s = nop s 1;
          s = send_cmd s 0x02 [0x00];
          (b, s) = wire_read s 1
      in (drop_bit 1 (from_bytes b) AND 1, s))"

section \<open>Reading\<close>

text \<open>The body of the EEPROM loop of \<^verbatim>\<open>read\<close> (lines 142 to 152), over the offsets of
  \<^verbatim>\<open>range(0, length, 1)\<close>.\<close>

fun read_eeprom_loop :: "state \<Rightarrow> int \<Rightarrow> int list \<Rightarrow> byte list \<Rightarrow> (error + byte list) \<times> state" where
  "read_eeprom_loop s addr [] data = (Inr data, s)"
| "read_eeprom_loop s addr (offset # rest) data =
     (case set_eeaddr s (addr + offset) of
        (Inl e, s) \<Rightarrow> (Inl e, s)
      | (Inr _, s) \<Rightarrow>
          (let s = send_cmd s 0x00 [0x80, 0xA6];
               s = send_cmd s 0x00 [0x6E, 0xF5];
               s = send_cmd s 0x00 [0x50, 0xA8];
               s = nop s 1;
               (b, s) = wire_read s 1
           in read_eeprom_loop s addr rest (data @ b)))"

text \<open>The loop \<^verbatim>\<open>for _ in range(...): send_cmd(b"\x09", b"\x00"); data += read(1)\<close> of
  \<^verbatim>\<open>read\<close>, \<^verbatim>\<open>get_cfg_ID\<close> and \<^verbatim>\<open>get_dev_ID\<close>.\<close>

fun table_read_loop :: "state \<Rightarrow> int list \<Rightarrow> byte list \<Rightarrow> byte list \<times> state" where
  "table_read_loop s [] data = (data, s)"
| "table_read_loop s (_ # rest) data =
     (let s = send_cmd s 0x09 [0x00];
          (b, s) = wire_read s 1
      in table_read_loop s rest (data @ b))"

definition read :: "state \<Rightarrow> int \<Rightarrow> int \<Rightarrow> bool \<Rightarrow> (error + byte list) \<times> state" where
  "read s addr len eeprom =
     (if len = 0 then (Inl ValueError, s)
      else
        (let s = enter_prog s;
             data = []
         in case
              (if eeprom then
                 (let s = send_cmd s 0x00 [0x9E, 0xA6];
                      s = send_cmd s 0x00 [0x9C, 0xA6]
                  in read_eeprom_loop s addr (py_range 0 len 1) data)
               else
                 (case set_tblptr s addr of
                    (Inl e, s) \<Rightarrow> (Inl e, s)
                  | (Inr _, s) \<Rightarrow>
                      (let (data, s) = table_read_loop s (py_range 0 len 1) data
                       in (Inr data, s))))
            of
              (Inl e, s) \<Rightarrow> (Inl e, s)
            | (Inr data, s) \<Rightarrow> (let s = exit_prog s in (Inr data, s))))"

section \<open>Writing\<close>

text \<open>\<^verbatim>\<open>while self.poll_wr(): continue\<close>. The loop has no bound: on a target that
  always answers busy it never returns, which is the value \<open>None\<close>.\<close>

partial_function (option) poll_loop :: "state \<Rightarrow> state option" where
  "poll_loop s = (case poll_wr s of (w, s') \<Rightarrow> if w \<noteq> 0 then poll_loop s' else Some s')"

text \<open>The per-byte loop of the EEPROM branch of \<^verbatim>\<open>write\<close> (lines 179 to 186).\<close>

fun write_eeprom_loop :: "state \<Rightarrow> byte list \<Rightarrow> int list \<Rightarrow> state option" where
  "write_eeprom_loop s data [] = Some s"
| "write_eeprom_loop s data (d # rest) =
     (let s = send_cmd s 0x0E (slice d (d + 1) data);
          s = send_cmd s 0x00 [0x84, 0xA6];
          s = nop s 2
      in case poll_loop s of
           None \<Rightarrow> None
         | Some s \<Rightarrow> write_eeprom_loop s data rest)"

text \<open>The EEPROM branch of \<^verbatim>\<open>write\<close> (lines 172 to 186).\<close>

definition write_eeprom :: "state \<Rightarrow> int \<Rightarrow> byte list \<Rightarrow> ((error + unit) \<times> state) option" where
  "write_eeprom s addr data =
     (let len = int (length data);
          s = send_cmd s 0x00 [0x9E, 0xA6];
          s = send_cmd s 0x00 [0x9C, 0xA6]
      in case set_eeaddr s addr of
           (Inl e, s) \<Rightarrow> Some (Inl e, s)
         | (Inr _, s) \<Rightarrow>
             (let s = send_cmd s 0x00 [0x84, 0xA6]
              in case write_eeprom_loop s data (py_range 0 len 1) of
                   None \<Rightarrow> None
                 | Some s \<Rightarrow> Some (Inr (), s)))"

text \<open>The loop over all but the last pair of the program-memory branch (lines 209, 210).\<close>

fun write_pairs_loop :: "state \<Rightarrow> byte list \<Rightarrow> int list \<Rightarrow> state" where
  "write_pairs_loop s data [] = s"
| "write_pairs_loop s data (d # rest) =
     write_pairs_loop (send_cmd s 0x0D (rev (slice d (d + 2) data))) data rest"

text \<open>Lines 206 to 212. After the loop \<open>d\<close> is the last index the loop ran on; with no
  iteration at all Python would find it unbound.\<close>

definition write_payload :: "state \<Rightarrow> byte list \<Rightarrow> (error + unit) \<times> state" where
  "write_payload s data =
     (let len = int (length data)
      in if len = 2 then (Inr (), send_cmd s 0x0F data)
         else
           (let ds = py_range 0 (len - 2) 2;
                s = write_pairs_loop s data ds
            in if ds = [] then (Inl UnboundLocalError, s)
               else (Inr (), send_cmd s 0x0F (rev (slice_from (last ds + 2) data)))))"

text \<open>The program-memory branch of \<^verbatim>\<open>write\<close> (lines 188 to 218).\<close>

definition write_flash :: "state \<Rightarrow> int \<Rightarrow> byte list \<Rightarrow> bool \<Rightarrow> ((error + unit) \<times> state) option" where
  "write_flash s addr data erase =
     (let s = send_cmd s 0x00 [0x8E, 0xA6];
          s = send_cmd s 0x00 [0x9C, 0xA6]
      in case set_tblptr s addr of
           (Inl e, s) \<Rightarrow> Some (Inl e, s)
         | (Inr _, s) \<Rightarrow>
             (let s = send_cmd s 0x00 [0x84, 0xA6];
                  s = send_cmd s 0x00 [0x88, 0xA6]
              in case
                   (if erase then
                      (let s = send_cmd s 0x00 [0x88, 0xA6];
                           s = send_cmd s 0x00 [0x82, 0xA6];
                           s = nop s 2
                       in poll_loop s)
                    else Some s)
                 of
                   None \<Rightarrow> None
                 | Some s \<Rightarrow>
                     (case write_payload s data of
                        (Inl e, s) \<Rightarrow> Some (Inl e, s)
                      | (Inr _, s) \<Rightarrow>
                          (let s = emit s (Sda 0);
                               s = emit s (Clocks 3);
                               s = emit s (Clk 1);
                               s = emit s (Sleep 1)
                           in Some (Inr (), s)))))"

text \<open>\<^verbatim>\<open>PIC18.write\<close> (its own name is a reserved word here).\<close>

definition write_mem :: "state \<Rightarrow> int \<Rightarrow> byte list \<Rightarrow> bool \<Rightarrow> bool \<Rightarrow> ((error + unit) \<times> state) option" where
  "write_mem s addr data eeprom erase =
     (let len = int (length data)
      in if len < 2 then Some (Inl ValueError, s)
         else if len mod 2 = 1 then Some (Inl ValueError, s)
         else
           (let s = enter_prog s
            in case (if eeprom then write_eeprom s addr data else write_flash s addr data erase) of
                 None \<Rightarrow> None
               | Some (Inl e, s) \<Rightarrow> Some (Inl e, s)
               | Some (Inr _, s) \<Rightarrow>
                   (let s = emit s (Clk 0);
                        s = nop s 2;
                        s = send_cmd s 0x00 [0x94, 0xA6];
                        s = exit_prog s
                    in Some (Inr (), s))))"

section \<open>Panel erase\<close>

definition erase_panel :: "state \<Rightarrow> byte list \<Rightarrow> (error + unit) \<times> state" where
  "erase_panel s panel =
     (let s = enter_prog s
      in case set_tblptr s 0x3c0005 of
           (Inl e, s) \<Rightarrow> (Inl e, s)
         | (Inr _, s) \<Rightarrow>
             (let s = send_cmd s 0x0C (concat (replicate 2 (slice 0 1 panel)))
              in case set_tblptr s 0x3c0004 of
                   (Inl e, s) \<Rightarrow> (Inl e, s)
                 | (Inr _, s) \<Rightarrow>
                     (let s = send_cmd s 0x0C (concat (replicate 2 (slice 1 2 panel)));
                          s = send_cmd s 0x00 [0x00, 0x00];
                          s = send_cmd s 0x00 [0x00, 0x00];
                          s = exit_prog s
                      in (Inr (), s))))"

section \<open>Identifier reads\<close>

text \<open>\<^verbatim>\<open>unpack('H' * n, data)\<close>: \<open>n\<close> unsigned 16-bit words in the host's byte order;
  \<^verbatim>\<open>struct.error\<close> unless \<open>data\<close> has exactly \<open>2 * n\<close> bytes.\<close>

definition unpack_H :: "bool \<Rightarrow> nat \<Rightarrow> byte list \<Rightarrow> error + nat list" where
  "unpack_H le n data =
     (if length data \<noteq> 2 * n then Inl StructError
      else Inr (map (\<lambda>k. if le then unat (data ! (2 * k)) + 256 * unat (data ! (2 * k + 1))
                          else 256 * unat (data ! (2 * k)) + unat (data ! (2 * k + 1)))
                    [0..<n]))"

text \<open>The closing loops \<^verbatim>\<open>for i in values: print(label, c, i); c += 1\<close>. The formatting
  of the line as text is left out: a printed line is its label, counter and value.\<close>

fun print_all :: "state \<Rightarrow> string \<Rightarrow> nat \<Rightarrow> nat list \<Rightarrow> state" where
  "print_all s label c [] = s"
| "print_all s label c (i # rest) =
     print_all (s\<lparr>stdout := stdout s @ [(label, c, i)]\<rparr>) label (c + 1) rest"

definition get_cfg_ID :: "state \<Rightarrow> int option \<Rightarrow> (error + unit) \<times> state" where
  "get_cfg_ID s address =
     (let s = enter_prog s;
          address = (case address of None \<Rightarrow> 0x300000 | Some a \<Rightarrow> a);
          data = []
      in case set_tblptr s address of
           (Inl e, s) \<Rightarrow> (Inl e, s)
         | (Inr _, s) \<Rightarrow>
             (let (data, s) = table_read_loop s (py_range 0 14 1) data;
                  s = exit_prog s
              in case unpack_H (little_endian s) 7 data of
                   Inl e \<Rightarrow> (Inl e, s)
                 | Inr CONFIG \<Rightarrow> (Inr (), print_all s ''CONFIG'' 1 CONFIG)))"

text \<open>The loop of \<^verbatim>\<open>get_loc_ID\<close> (lines 257 to 260).\<close>

fun loc_read_loop :: "state \<Rightarrow> int \<Rightarrow> int list \<Rightarrow> byte list \<Rightarrow> (error + byte list) \<times> state" where
  "loc_read_loop s address [] data = (Inr data, s)"
| "loc_read_loop s address (_ # rest) data =
     (case set_tblptr s address of
        (Inl e, s) \<Rightarrow> (Inl e, s)
      | (Inr _, s) \<Rightarrow>
          (let s = send_cmd s 0x08 [0x00];
               (b, s) = wire_read s 1
           in loc_read_loop s address rest (data @ b)))"

definition get_loc_ID :: "state \<Rightarrow> int option \<Rightarrow> (error + unit) \<times> state" where
  "get_loc_ID s address =
     (let s = enter_prog s;
          address = (case address of None \<Rightarrow> 0x200000 | Some a \<Rightarrow> a);
          data = []
      in case loc_read_loop s address (py_range address (address + 8) 1) data of
           (Inl e, s) \<Rightarrow> (Inl e, s)
         | (Inr data, s) \<Rightarrow>
             (let s = exit_prog s
              in case unpack_H (little_endian s) 4 data of
                   Inl e \<Rightarrow> (Inl e, s)
                 | Inr ID \<Rightarrow> (Inr (), print_all s ''LOC_ID'' 1 ID)))"

definition get_dev_ID :: "state \<Rightarrow> int option \<Rightarrow> (error + unit) \<times> state" where
  "get_dev_ID s address =
     (let s = enter_prog s;
          address = (case address of None \<Rightarrow> 0x3FFFFE | Some a \<Rightarrow> a);
          data = []
      in case set_tblptr s address of
           (Inl e, s) \<Rightarrow> (Inl e, s)
         | (Inr _, s) \<Rightarrow>
             (let (data, s) = table_read_loop s (py_range 0 2 1) data;
                  s = exit_prog s
              in (Inr (), print_all s ''DEV_ID'' 1 (map unat data))))"

section \<open>Expected transport sequences\<close>

text \<open>What one \<^verbatim>\<open>send_cmd(cmd, payload)\<close> puts on the transport: the call
  \<^verbatim>\<open>write_bits(cmd, 4)\<close>, which transmits the low four bits of \<open>cmd\<close>, then one
  \<^verbatim>\<open>write\<close> per payload byte sent.\<close>

definition cmd_events :: "byte \<Rightarrow> byte list \<Rightarrow> event list" where
  "cmd_events cmd payload =
     WriteBits cmd 4 #
       (if even (length payload) then [Write (take 1 (drop 1 payload)), Write (take 1 payload)]
        else [Write (take 1 payload)])"

definition instrs :: "(byte \<times> byte list) list \<Rightarrow> event list" where
  "instrs is = concat (map (\<lambda>(cmd, payload). cmd_events cmd payload) is)"

definition enter_events :: "event list" where
  "enter_events = [Sda 0, Clk 0, Aux 1 1, Aux 0 1]"

definition exit_events :: "event list" where
  "exit_events = [Sda 0, Clk 0, Aux 0 0, Aux 1 0]"

text \<open>Loading the 24-bit table pointer and the 16-bit EEPROM address, most significant
  byte first: \<^verbatim>\<open>MOVLW\<close> of the byte, then \<^verbatim>\<open>MOVWF\<close> to the register.\<close>

definition tblptr_events :: "int \<Rightarrow> event list" where
  "tblptr_events a =
     instrs [(0x00, [0x0E, word_of_int (a div 2 ^ 16)]), (0x00, [0x6E, 0xF8]),
             (0x00, [0x0E, word_of_int (a div 2 ^ 8)]), (0x00, [0x6E, 0xF7]),
             (0x00, [0x0E, word_of_int a]), (0x00, [0x6E, 0xF6])]"

definition eeaddr_events :: "int \<Rightarrow> event list" where
  "eeaddr_events a =
     instrs [(0x00, [0x0E, word_of_int (a div 2 ^ 8)]), (0x00, [0x6E, 0xAA]),
             (0x00, [0x0E, word_of_int a]), (0x00, [0x6E, 0xA9])]"

text \<open>Two received bytes read as one 16-bit word in the host's byte order.\<close>

definition word16 :: "bool \<Rightarrow> byte \<Rightarrow> byte \<Rightarrow> nat" where
  "word16 le a b = (if le then unat a + 256 * unat b else 256 * unat a + unat b)"

text \<open>Two concrete sessions to run the model on: nothing sent yet, on a little-endian
  host; the target answers zero to every read (never busy), or the bytes
  \<open>0x41, 0x42, \<dots>\<close> in turn.\<close>

definition idle :: state where
  "idle = \<lparr>trace = [], rx = (\<lambda>_. 0), stdout = [], little_endian = True\<rparr>"

definition lettered :: state where
  "lettered = \<lparr>trace = [], rx = (\<lambda>k. 0x41 + of_nat k), stdout = [], little_endian = True\<rparr>"

text \<open>One round of the EEPROM read loop: the address, the read request, two register
  moves \<open>m1\<close> and \<open>m2\<close>, one no-op, one byte read.\<close>

definition eeprom_read_step :: "byte list \<Rightarrow> byte list \<Rightarrow> int \<Rightarrow> event list" where
  "eeprom_read_step m1 m2 a =
     eeaddr_events a @
     instrs [(0x00, [0x80, 0xA6]), (0x00, m1), (0x00, m2), (0x00, [0x00, 0x00])] @ [Read 1]"

text \<open>The EEPROM read as the specification words it: in every round \<^verbatim>\<open>MOVF EEDATA, W\<close>
  (\<open>0x50 0xA8\<close>), then \<^verbatim>\<open>MOVWF TABLAT\<close> (\<open>0x6E 0xF5\<close>), then two no-ops.\<close>

definition spec_read_eeprom_trace :: "int \<Rightarrow> int \<Rightarrow> event list" where
  "spec_read_eeprom_trace addr len =
     enter_events @ instrs [(0x00, [0x9E, 0xA6]), (0x00, [0x9C, 0xA6])] @
     concat (map (\<lambda>offset.
         eeaddr_events (addr + offset) @
         instrs [(0x00, [0x80, 0xA6]), (0x00, [0x50, 0xA8]), (0x00, [0x6E, 0xF5]),
                 (0x00, [0x00, 0x00]), (0x00, [0x00, 0x00])] @ [Read 1])
       [0..len - 1]) @
     exit_events"

text \<open>Events that leave the two auxiliary lines alone; a session that only added such
  events; a session that added the entry sequence, such events, and the exit sequence.\<close>

definition quiet :: "event list \<Rightarrow> bool" where
  "quiet evs = list_all (\<lambda>e. case e of Aux _ _ \<Rightarrow> False | _ \<Rightarrow> True) evs"

definition extends :: "state \<Rightarrow> state \<Rightarrow> bool" where
  "extends s s' =
     (let mid = drop (length (trace s)) (trace s')
      in trace s' = trace s @ mid \<and> quiet mid)"

definition bracketed :: "state \<Rightarrow> state \<Rightarrow> bool" where
  "bracketed s s' =
     (let added = drop (length (trace s)) (trace s');
          mid = take (length added - 8) (drop 4 added)
      in trace s' = trace s @ enter_events @ mid @ exit_events \<and> quiet mid)"

text \<open>The programming-mode state of section 4.3 read off the trace: the levels last
  driven on \<^verbatim>\<open>AUX[0]\<close> (/MCLR) and \<^verbatim>\<open>AUX[1]\<close> (PGM), both low before anything is sent.
  The target is in programming mode while both are high.\<close>

fun aux_step :: "nat \<times> nat \<Rightarrow> event \<Rightarrow> nat \<times> nat" where
  "aux_step (mclr, pgm) (Aux i v) =
     (if i = 0 then (v, pgm) else if i = 1 then (mclr, v) else (mclr, pgm))"
| "aux_step levels _ = levels"

definition programming :: "event list \<Rightarrow> bool" where
  "programming tr = (foldl aux_step (0, 0) tr = (1, 1))"

declare poll_loop.simps [code]

section \<open>Basic facts about the primitives\<close>

lemma slice_0_1: "slice 0 1 xs = take 1 xs"
  by (cases xs) (simp_all add: slice_def slice_bound_def)

lemma slice_1_2: "slice 1 2 xs = take 1 (drop 1 xs)"
proof (cases xs)
  case Nil
  then show ?thesis by (simp add: slice_def slice_bound_def)
next
  case (Cons x ys)
  then show ?thesis by (cases ys) (simp_all add: slice_def slice_bound_def)
qed

lemma slice_2_3: "slice 2 3 [a, b, c] = [c]"
  by (simp add: slice_def slice_bound_def)

lemma int_mod_2: "(int n mod 2 = 0) = even n"
  by presburger

lemma send_cmd_eq: "send_cmd s cmd p = s\<lparr>trace := trace s @ cmd_events cmd p\<rparr>"
  by (simp add: send_cmd_def emit_def cmd_events_def slice_0_1 slice_1_2 Let_def int_mod_2)

lemma instrs_Nil: "instrs [] = []"
  by (simp add: instrs_def)

lemma instrs_Cons: "instrs ((c, p) # is) = cmd_events c p @ instrs is"
  by (simp add: instrs_def)

lemma py_range_step_1: "py_range a b 1 = [a..b - 1]"
  by (simp add: py_range_def)

lemma length_py_range_1: "length (py_range a b 1) = nat (b - a)"
  by (simp add: py_range_step_1)

lemma py_range_1: "py_range 0 1 1 = [0]"
  by (simp add: py_range_def)

lemma py_range_2: "py_range 0 2 1 = [0, 1]"
  by (simp add: py_range_def upto_rec1)

lemma nop_1: "nop s 1 = s\<lparr>trace := trace s @ cmd_events 0 [0, 0]\<rparr>"
  by (simp add: nop_def py_range_1 send_cmd_eq)

lemma nop_2: "nop s 2 = s\<lparr>trace := trace s @ cmd_events 0 [0, 0] @ cmd_events 0 [0, 0]\<rparr>"
  by (simp add: nop_def py_range_2 send_cmd_eq)

lemma enter_prog_eq: "enter_prog s = s\<lparr>trace := trace s @ enter_events\<rparr>"
  by (simp add: enter_prog_def emit_def enter_events_def)

lemma exit_prog_eq: "exit_prog s = s\<lparr>trace := trace s @ exit_events\<rparr>"
  by (simp add: exit_prog_def emit_def exit_events_def)

lemma to_bytes_3:
  "0 \<le> a \<Longrightarrow> a < 2 ^ 24 \<Longrightarrow>
   to_bytes a 3 = Inr [word_of_int (a div 2 ^ 16), word_of_int (a div 2 ^ 8), word_of_int a]"
  by (simp add: to_bytes_def numeral_3_eq_3)

lemma to_bytes_2:
  "0 \<le> a \<Longrightarrow> a < 2 ^ 16 \<Longrightarrow> to_bytes a 2 = Inr [word_of_int (a div 2 ^ 8), word_of_int a]"
  by (simp add: to_bytes_def numeral_2_eq_2)

lemma set_tblptr_ok:
  assumes "0 \<le> a" "a < 2 ^ 24"
  shows "set_tblptr s a = (Inr (), s\<lparr>trace := trace s @ tblptr_events a\<rparr>)"
  using assms
  by (simp add: set_tblptr_def to_bytes_3 slice_0_1 slice_1_2 slice_2_3 send_cmd_eq
      tblptr_events_def instrs_Cons instrs_Nil)

lemma set_tblptr_overflow:
  "a < 0 \<or> 2 ^ 24 \<le> a \<Longrightarrow> set_tblptr s a = (Inl OverflowError, s)"
  by (simp add: set_tblptr_def to_bytes_def)

lemma set_eeaddr_ok:
  assumes "0 \<le> a" "a < 2 ^ 16"
  shows "set_eeaddr s a = (Inr (), s\<lparr>trace := trace s @ eeaddr_events a\<rparr>)"
  using assms
  by (simp add: set_eeaddr_def to_bytes_2 slice_0_1 slice_1_2 send_cmd_eq
      eeaddr_events_def instrs_Cons instrs_Nil)

lemma set_eeaddr_overflow:
  "a < 0 \<or> 2 ^ 16 \<le> a \<Longrightarrow> set_eeaddr s a = (Inl OverflowError, s)"
  by (simp add: set_eeaddr_def to_bytes_def)

lemma wire_read_1:
  "wire_read s (Suc 0) = ([rx s 0], s\<lparr>trace := trace s @ [Read 1], rx := (\<lambda>k. rx s (Suc k))\<rparr>)"
  by (simp add: wire_read_def)

lemma table_read_loop_eq:
  "table_read_loop s xs data =
     (data @ map (rx s) [0..<length xs],
      s\<lparr>trace := trace s @ concat (replicate (length xs) (cmd_events 0x09 [0x00] @ [Read 1])),
        rx := (\<lambda>k. rx s (k + length xs))\<rparr>)"
proof (induction xs arbitrary: s data)
  case Nil
  show ?case by simp
next
  case (Cons x xs)
  have unroll: "map (rx s) [0..<Suc (length xs)] = rx s 0 # map (\<lambda>k. rx s (Suc k)) [0..<length xs]"
    by (rule map_upt_Suc)
  show ?case
    by (simp add: send_cmd_eq wire_read_1 Cons.IH unroll del: upt_Suc)
qed

lemma loc_read_loop_eq:
  assumes "0 \<le> a" "a < 2 ^ 24"
  shows "loc_read_loop s a xs data =
     (Inr (data @ map (rx s) [0..<length xs]),
      s\<lparr>trace := trace s @
           concat (replicate (length xs) (tblptr_events a @ cmd_events 0x08 [0x00] @ [Read 1])),
        rx := (\<lambda>k. rx s (k + length xs))\<rparr>)"
proof (induction xs arbitrary: s data)
  case Nil
  show ?case by simp
next
  case (Cons x xs)
  have unroll: "map (rx s) [0..<Suc (length xs)] = rx s 0 # map (\<lambda>k. rx s (Suc k)) [0..<length xs]"
    by (rule map_upt_Suc)
  show ?case
    by (simp add: set_tblptr_ok [OF assms] send_cmd_eq wire_read_1 Cons.IH unroll del: upt_Suc)
qed

lemma upt_8: "[0..<8] = [0, 1, 2, 3, 4, 5, 6, 7]"
  by code_simp

lemma upt_4: "[0..<4] = [0, 1, 2, 3]"
  by code_simp

lemma unpack_H_4:
  "unpack_H le 4 [b0, b1, b2, b3, b4, b5, b6, b7] =
     Inr [word16 le b0 b1, word16 le b2 b3, word16 le b4 b5, word16 le b6 b7]"
  by (simp add: unpack_H_def word16_def upt_4)

lemma py_range_0_2_2: "py_range 0 2 2 = [0]"
  by code_simp

lemma upto_0_0: "[0..(0::int)] = [0]"
  by code_simp

lemma write_payload_2: "write_payload s [a, b] = (Inr (), s\<lparr>trace := trace s @ cmd_events 0x0F [a, b]\<rparr>)"
  by (simp add: write_payload_def send_cmd_eq)

lemma write_payload_4:
  "write_payload s [a, b, c, d] =
     (Inr (), s\<lparr>trace := trace s @ cmd_events 0x0D [b, a] @ cmd_events 0x0F [d, c]\<rparr>)"
  by (simp add: write_payload_def send_cmd_eq py_range_0_2_2 slice_def slice_from_def slice_bound_def)

lemma read_eeprom_loop_eq:
  assumes "\<forall>offset \<in> set offsets. 0 \<le> addr + offset \<and> addr + offset < 2 ^ 16"
  shows "read_eeprom_loop s addr offsets data =
     (Inr (data @ map (rx s) [0..<length offsets]),
      s\<lparr>trace := trace s @
           concat (map (\<lambda>offset. eeprom_read_step [0x6E, 0xF5] [0x50, 0xA8] (addr + offset)) offsets),
        rx := (\<lambda>k. rx s (k + length offsets))\<rparr>)"
  using assms
proof (induction offsets arbitrary: s data)
  case Nil
  show ?case by simp
next
  case (Cons x xs)
  have unroll: "map (rx s) [0..<Suc (length xs)] = rx s 0 # map (\<lambda>k. rx s (Suc k)) [0..<length xs]"
    by (rule map_upt_Suc)
  have ok: "0 \<le> addr + x" "addr + x < 2 ^ 16"
    using Cons.prems by simp_all
  have rest: "\<forall>offset \<in> set xs. 0 \<le> addr + offset \<and> addr + offset < 2 ^ 16"
    using Cons.prems by simp
  show ?case
    by (simp add: set_eeaddr_ok [OF ok] send_cmd_eq nop_1 wire_read_1 Cons.IH [OF rest] unroll
        eeprom_read_step_def instrs_Cons instrs_Nil del: upt_Suc)
qed

lemma tblptr_events_fixed:
  "tblptr_events 0x3C0005 =
     instrs [(0x00, [0x0E, 0x3C]), (0x00, [0x6E, 0xF8]), (0x00, [0x0E, 0x00]),
             (0x00, [0x6E, 0xF7]), (0x00, [0x0E, 0x05]), (0x00, [0x6E, 0xF6])]"
  "tblptr_events 0x3C0004 =
     instrs [(0x00, [0x0E, 0x3C]), (0x00, [0x6E, 0xF8]), (0x00, [0x0E, 0x00]),
             (0x00, [0x6E, 0xF7]), (0x00, [0x0E, 0x04]), (0x00, [0x6E, 0xF6])]"
  "tblptr_events 0x200000 =
     instrs [(0x00, [0x0E, 0x20]), (0x00, [0x6E, 0xF8]), (0x00, [0x0E, 0x00]),
             (0x00, [0x6E, 0xF7]), (0x00, [0x0E, 0x00]), (0x00, [0x6E, 0xF6])]"
  by (simp_all add: tblptr_events_def instrs_Cons instrs_Nil cmd_events_def)

section \<open>Sessions that stay inside programming mode\<close>

lemma quiet_Nil: "quiet []"
  by (simp add: quiet_def)

lemma quiet_append: "quiet (a @ b) = (quiet a \<and> quiet b)"
  by (simp add: quiet_def)

lemma quiet_cmd_events: "quiet (cmd_events c p)"
  by (simp add: quiet_def cmd_events_def)

lemma quiet_instrs: "quiet (instrs is)"
  by (induction "is") (auto simp add: instrs_Nil instrs_Cons quiet_Nil quiet_append quiet_cmd_events)

lemma quiet_Read: "quiet [Read n]"
  by (simp add: quiet_def)

lemma quiet_replicate: "quiet evs \<Longrightarrow> quiet (concat (replicate n evs))"
  by (induction n) (simp_all add: quiet_Nil quiet_append)

lemma extends_iff: "extends s s' = (\<exists>mid. trace s' = trace s @ mid \<and> quiet mid)"
proof
  assume "extends s s'"
  then show "\<exists>mid. trace s' = trace s @ mid \<and> quiet mid"
    unfolding extends_def Let_def by blast
next
  assume "\<exists>mid. trace s' = trace s @ mid \<and> quiet mid"
  then obtain mid where "trace s' = trace s @ mid" "quiet mid"
    by blast
  then show "extends s s'"
    by (simp add: extends_def)
qed

lemma bracketed_iff:
  "bracketed s s' =
     (\<exists>mid. trace s' = trace s @ enter_events @ mid @ exit_events \<and> quiet mid)"
proof
  assume "bracketed s s'"
  then show "\<exists>mid. trace s' = trace s @ enter_events @ mid @ exit_events \<and> quiet mid"
    unfolding bracketed_def Let_def by blast
next
  assume "\<exists>mid. trace s' = trace s @ enter_events @ mid @ exit_events \<and> quiet mid"
  then obtain mid where "trace s' = trace s @ enter_events @ mid @ exit_events" "quiet mid"
    by blast
  then show "bracketed s s'"
    by (simp add: bracketed_def enter_events_def exit_events_def)
qed

lemma extends_refl: "extends s s"
  by (auto simp add: extends_iff quiet_Nil)

lemma extends_trans [trans]: "extends s s1 \<Longrightarrow> extends s1 s2 \<Longrightarrow> extends s s2"
  by (auto simp add: extends_iff quiet_append)

lemma extends_append: "quiet evs \<Longrightarrow> extends s (s\<lparr>trace := trace s @ evs\<rparr>)"
  by (auto simp add: extends_iff)

lemma send_cmd_extends: "extends s (send_cmd s c p)"
  by (simp add: send_cmd_eq extends_append quiet_cmd_events)

lemma nop_1_extends: "extends s (nop s 1)"
  by (simp add: nop_1 extends_append quiet_cmd_events)

lemma nop_2_extends: "extends s (nop s 2)"
  by (simp add: nop_2 extends_append quiet_cmd_events quiet_append)

lemma wire_read_extends: "extends s (snd (wire_read s n))"
  by (auto simp add: wire_read_def extends_iff quiet_Read)

lemma extends_send_cmd: "extends s s1 \<Longrightarrow> extends s (send_cmd s1 c p)"
  by (erule extends_trans) (rule send_cmd_extends)

lemma extends_nop_1: "extends s s1 \<Longrightarrow> extends s (nop s1 1)"
  by (erule extends_trans) (rule nop_1_extends)

lemma extends_nop_2: "extends s s1 \<Longrightarrow> extends s (nop s1 2)"
  by (erule extends_trans) (rule nop_2_extends)

lemma extends_wire_read: "extends s s1 \<Longrightarrow> extends s (snd (wire_read s1 n))"
  by (erule extends_trans) (rule wire_read_extends)

lemma extends_emit:
  assumes "quiet [e]" "extends s s1"
  shows "extends s (emit s1 e)"
proof -
  have "extends s1 (emit s1 e)"
    using assms(1) by (simp add: emit_def extends_append)
  with assms(2) show ?thesis
    by (rule extends_trans)
qed

lemma set_tblptr_Inr:
  assumes "set_tblptr s a = (Inr u, s')"
  shows "extends s s'"
proof (cases "0 \<le> a \<and> a < 2 ^ 24")
  case True
  then show ?thesis
    using assms by (auto simp add: set_tblptr_ok tblptr_events_def extends_append quiet_instrs)
next
  case False
  then have "set_tblptr s a = (Inl OverflowError, s)"
    by (intro set_tblptr_overflow) auto
  then show ?thesis using assms by simp
qed

lemma set_eeaddr_Inr:
  assumes "set_eeaddr s a = (Inr u, s')"
  shows "extends s s'"
proof (cases "0 \<le> a \<and> a < 2 ^ 16")
  case True
  then show ?thesis
    using assms by (auto simp add: set_eeaddr_ok eeaddr_events_def extends_append quiet_instrs)
next
  case False
  then have "set_eeaddr s a = (Inl OverflowError, s)"
    by (intro set_eeaddr_overflow) auto
  then show ?thesis using assms by simp
qed

lemma table_read_loop_extends: "extends s (snd (table_read_loop s xs data))"
  by (simp add: table_read_loop_eq extends_iff quiet_replicate quiet_append quiet_cmd_events
      quiet_Read)

lemma read_eeprom_loop_Inr:
  "read_eeprom_loop s addr offsets data = (Inr d, s') \<Longrightarrow> extends s s'"
proof (induction offsets arbitrary: s data)
  case Nil
  then show ?case by (simp add: extends_refl)
next
  case (Cons x xs)
  from Cons.prems obtain s1 where
    a: "set_eeaddr s (addr + x) = (Inr (), s1)"
    by (auto split: prod.splits sum.splits)
  define s2 where "s2 = nop (send_cmd (send_cmd (send_cmd s1 0x00 [0x80, 0xA6]) 0x00 [0x6E, 0xF5]) 0x00 [0x50, 0xA8]) 1"
  have rest: "read_eeprom_loop (snd (wire_read s2 1)) addr xs (data @ fst (wire_read s2 1)) = (Inr d, s')"
    using Cons.prems a by (simp add: s2_def case_prod_unfold Let_def)
  have "extends s s1"
    using a by (rule set_eeaddr_Inr)
  also have "extends s1 s2"
    unfolding s2_def
    by (intro extends_send_cmd extends_nop_1 extends_refl)
  also have "extends s2 (snd (wire_read s2 1))"
    by (rule wire_read_extends)
  also have "extends (snd (wire_read s2 1)) s'"
    using rest by (rule Cons.IH)
  finally show ?case .
qed

lemma loc_read_loop_Inr:
  "loc_read_loop s a xs data = (Inr d, s') \<Longrightarrow> extends s s'"
proof (induction xs arbitrary: s data)
  case Nil
  then show ?case by (simp add: extends_refl)
next
  case (Cons x xs)
  from Cons.prems obtain s1 where
    a: "set_tblptr s a = (Inr (), s1)"
    by (auto split: prod.splits sum.splits)
  define s2 where "s2 = send_cmd s1 0x08 [0x00]"
  have rest: "loc_read_loop (snd (wire_read s2 1)) a xs (data @ fst (wire_read s2 1)) = (Inr d, s')"
    using Cons.prems a by (simp add: s2_def case_prod_unfold Let_def)
  have "extends s s1"
    using a by (rule set_tblptr_Inr)
  also have "extends s1 s2"
    unfolding s2_def by (rule send_cmd_extends)
  also have "extends s2 (snd (wire_read s2 1))"
    by (rule wire_read_extends)
  also have "extends (snd (wire_read s2 1)) s'"
    using rest by (rule Cons.IH)
  finally show ?case .
qed

lemma poll_wr_extends: "extends s (snd (poll_wr s))"
proof -
  define s1 where "s1 = send_cmd (nop (send_cmd (send_cmd s 0x00 [0x50, 0xA6]) 0x00 [0x6E, 0xF5]) 1) 0x02 [0x00]"
  have "snd (poll_wr s) = snd (wire_read s1 1)"
    by (simp add: poll_wr_def s1_def case_prod_unfold Let_def)
  moreover have "extends s (snd (wire_read s1 1))"
    unfolding s1_def by (intro extends_wire_read extends_send_cmd extends_nop_1 extends_refl)
  ultimately show ?thesis
    by simp
qed

lemma poll_loop_Some:
  "poll_loop s = Some s' \<Longrightarrow> extends s s'"
proof (induction rule: poll_loop.raw_induct [rotated 1, consumes 1])
  case (1 poll_loop' s s')
  show ?case
  proof (cases "fst (poll_wr s) \<noteq> 0")
    case True
    then have "poll_loop' (snd (poll_wr s)) = Some s'"
      using 1(2) by (simp add: case_prod_unfold)
    then have "extends (snd (poll_wr s)) s'"
      by (rule 1(1))
    with poll_wr_extends show ?thesis
      by (rule extends_trans)
  next
    case False
    then have "s' = snd (poll_wr s)"
      using 1(2) by (simp add: case_prod_unfold)
    then show ?thesis
      by (simp add: poll_wr_extends)
  qed
qed

lemma write_eeprom_loop_Some:
  "write_eeprom_loop s data ds = Some s' \<Longrightarrow> extends s s'"
proof (induction ds arbitrary: s)
  case Nil
  then show ?case by (simp add: extends_refl)
next
  case (Cons d ds)
  define s1 where "s1 = nop (send_cmd (send_cmd s 0x0E (slice d (d + 1) data)) 0x00 [0x84, 0xA6]) 2"
  from Cons.prems obtain s2 where
    p: "poll_loop s1 = Some s2" and rest: "write_eeprom_loop s2 data ds = Some s'"
    by (auto simp add: s1_def Let_def split: option.splits)
  have "extends s s1"
    unfolding s1_def by (intro extends_send_cmd extends_nop_2 extends_refl)
  also have "extends s1 s2"
    using p by (rule poll_loop_Some)
  also have "extends s2 s'"
    using rest by (rule Cons.IH)
  finally show ?case .
qed

lemma write_pairs_loop_extends: "extends s (write_pairs_loop s data ds)"
proof (induction ds arbitrary: s)
  case Nil
  show ?case by (simp add: extends_refl)
next
  case (Cons d ds)
  have "extends s (send_cmd s 0x0D (rev (slice d (d + 2) data)))"
    by (rule send_cmd_extends)
  also have "extends \<dots> (write_pairs_loop (send_cmd s 0x0D (rev (slice d (d + 2) data))) data ds)"
    by (rule Cons.IH)
  finally show ?case by simp
qed

lemma write_payload_extends: "extends s (snd (write_payload s data))"
proof (cases "int (length data) = 2")
  case True
  then show ?thesis
    by (simp add: write_payload_def send_cmd_extends)
next
  case False
  define s1 where "s1 = write_pairs_loop s data (py_range 0 (int (length data) - 2) 2)"
  have one: "extends s s1"
    unfolding s1_def by (rule write_pairs_loop_extends)
  have two: "extends s (send_cmd s1 c p)" for c p
    using one send_cmd_extends by (rule extends_trans)
  show ?thesis
    using False one two by (simp add: write_payload_def Let_def s1_def extends_refl)
qed

lemma bracketedI:
  assumes "extends (enter_prog s) s2" "trace s' = trace (exit_prog s2)"
  shows "bracketed s s'"
proof -
  from assms(1) obtain mid where
    mid: "trace s2 = trace s @ enter_events @ mid" "quiet mid"
    by (auto simp add: extends_iff enter_prog_eq)
  then have "trace s' = trace s @ enter_events @ mid @ exit_events"
    using assms(2) by (simp add: exit_prog_eq)
  with mid(2) show ?thesis
    unfolding bracketed_iff by blast
qed

lemma trace_print_all: "trace (print_all s label c xs) = trace s"
  by (induction xs arbitrary: s c) simp_all

lemma read_brackets:
  assumes "read s addr len eeprom = (Inr data, s')"
  shows "bracketed s s'"
proof -
  define s1 where "s1 = enter_prog s"
  have nonzero: "len \<noteq> 0"
    using assms by (auto simp add: read_def)
  show ?thesis
  proof (cases eeprom)
    case True
    define s2 where "s2 = send_cmd (send_cmd s1 0x00 [0x9E, 0xA6]) 0x00 [0x9C, 0xA6]"
    from assms True nonzero obtain s3 where
      loop: "read_eeprom_loop s2 addr (py_range 0 len 1) [] = (Inr data, s3)"
      and s': "s' = exit_prog s3"
      by (auto simp add: read_def s1_def s2_def Let_def split: prod.splits sum.splits)
    have "extends s1 s2"
      unfolding s2_def by (intro extends_send_cmd extends_refl)
    also have "extends s2 s3"
      using loop by (rule read_eeprom_loop_Inr)
    finally show ?thesis
      unfolding s1_def using s' by (intro bracketedI) simp_all
  next
    case False
    from assms False nonzero obtain s2 where
      ptr: "set_tblptr s1 addr = (Inr (), s2)"
      and s': "s' = exit_prog (snd (table_read_loop s2 (py_range 0 len 1) []))"
      by (auto simp add: read_def s1_def Let_def split: prod.splits sum.splits)
    have "extends s1 s2"
      using ptr by (rule set_tblptr_Inr)
    also have "extends s2 (snd (table_read_loop s2 (py_range 0 len 1) []))"
      by (rule table_read_loop_extends)
    finally show ?thesis
      unfolding s1_def using s' by (intro bracketedI) simp_all
  qed
qed

lemma erase_panel_brackets:
  assumes "erase_panel s panel = (Inr (), s')"
  shows "bracketed s s'"
proof -
  define s1 where "s1 = enter_prog s"
  from assms obtain s2 s3 where
    p1: "set_tblptr s1 0x3c0005 = (Inr (), s2)"
    and p2: "set_tblptr (send_cmd s2 0x0C (concat (replicate 2 (slice 0 1 panel)))) 0x3c0004 = (Inr (), s3)"
    and s': "s' = exit_prog (send_cmd (send_cmd (send_cmd s3 0x0C (concat (replicate 2 (slice 1 2 panel)))) 0x00 [0x00, 0x00]) 0x00 [0x00, 0x00])"
    by (auto simp add: erase_panel_def s1_def Let_def split: prod.splits sum.splits)
  have "extends s1 s2"
    using p1 by (rule set_tblptr_Inr)
  also have "extends s2 (send_cmd s2 0x0C (concat (replicate 2 (slice 0 1 panel))))"
    by (rule send_cmd_extends)
  also have "extends \<dots> s3"
    using p2 by (rule set_tblptr_Inr)
  also have "extends s3 (send_cmd s3 0x0C (concat (replicate 2 (slice 1 2 panel))))"
    by (rule send_cmd_extends)
  also have "extends \<dots> (send_cmd \<dots> 0x00 [0x00, 0x00])"
    by (rule send_cmd_extends)
  also have "extends \<dots> (send_cmd \<dots> 0x00 [0x00, 0x00])"
    by (rule send_cmd_extends)
  finally show ?thesis
    unfolding s1_def using s' by (intro bracketedI) simp_all
qed

lemma get_cfg_ID_brackets:
  assumes "get_cfg_ID s address = (Inr (), s')"
  shows "bracketed s s'"
proof -
  define s1 where "s1 = enter_prog s"
  define a where "a = (case address of None \<Rightarrow> 0x300000 | Some a \<Rightarrow> a)"
  from assms obtain s2 where
    ptr: "set_tblptr s1 a = (Inr (), s2)"
    and s': "trace s' = trace (exit_prog (snd (table_read_loop s2 (py_range 0 14 1) [])))"
    by (auto simp add: get_cfg_ID_def s1_def a_def Let_def trace_print_all
        split: prod.splits sum.splits)
  have "extends s1 s2"
    using ptr by (rule set_tblptr_Inr)
  also have "extends s2 (snd (table_read_loop s2 (py_range 0 14 1) []))"
    by (rule table_read_loop_extends)
  finally show ?thesis
    unfolding s1_def using s' by (intro bracketedI) simp_all
qed

lemma get_dev_ID_brackets:
  assumes "get_dev_ID s address = (Inr (), s')"
  shows "bracketed s s'"
proof -
  define s1 where "s1 = enter_prog s"
  define a where "a = (case address of None \<Rightarrow> 0x3FFFFE | Some a \<Rightarrow> a)"
  from assms obtain s2 where
    ptr: "set_tblptr s1 a = (Inr (), s2)"
    and s': "trace s' = trace (exit_prog (snd (table_read_loop s2 (py_range 0 2 1) [])))"
    by (auto simp add: get_dev_ID_def s1_def a_def Let_def trace_print_all
        split: prod.splits sum.splits)
  have "extends s1 s2"
    using ptr by (rule set_tblptr_Inr)
  also have "extends s2 (snd (table_read_loop s2 (py_range 0 2 1) []))"
    by (rule table_read_loop_extends)
  finally show ?thesis
    unfolding s1_def using s' by (intro bracketedI) simp_all
qed

lemma get_loc_ID_brackets:
  assumes "get_loc_ID s address = (Inr (), s')"
  shows "bracketed s s'"
proof -
  define s1 where "s1 = enter_prog s"
  define a where "a = (case address of None \<Rightarrow> 0x200000 | Some a \<Rightarrow> a)"
  from assms obtain d s2 where
    loop: "loc_read_loop s1 a (py_range a (a + 8) 1) [] = (Inr d, s2)"
    and s': "trace s' = trace (exit_prog s2)"
    by (auto simp add: get_loc_ID_def s1_def a_def Let_def trace_print_all
        split: prod.splits sum.splits)
  have "extends s1 s2"
    using loop by (rule loc_read_loop_Inr)
  then show ?thesis
    unfolding s1_def using s' by (intro bracketedI) simp_all
qed

lemma quiet_line_events: "quiet [Sda v]" "quiet [Clk v]" "quiet [Clocks n]" "quiet [Sleep n]"
  by (simp_all add: quiet_def)

lemma write_eeprom_Some:
  assumes "write_eeprom s addr data = Some (Inr u, s')"
  shows "extends s s'"
proof -
  define s1 where "s1 = send_cmd (send_cmd s 0x00 [0x9E, 0xA6]) 0x00 [0x9C, 0xA6]"
  from assms obtain s2 where
    a: "set_eeaddr s1 addr = (Inr (), s2)"
    and loop: "write_eeprom_loop (send_cmd s2 0x00 [0x84, 0xA6]) data
                 (py_range 0 (int (length data)) 1) = Some s'"
    by (auto simp add: write_eeprom_def s1_def Let_def split: prod.splits sum.splits option.splits)
  have "extends s s1"
    unfolding s1_def by (intro extends_send_cmd extends_refl)
  also have "extends s1 s2"
    using a by (rule set_eeaddr_Inr)
  also have "extends s2 (send_cmd s2 0x00 [0x84, 0xA6])"
    by (rule send_cmd_extends)
  also have "extends \<dots> s'"
    using loop by (rule write_eeprom_loop_Some)
  finally show ?thesis .
qed

lemma write_flash_Some:
  assumes "write_flash s addr data erase = Some (Inr u, s')"
  shows "extends s s'"
proof -
  define s1 where "s1 = send_cmd (send_cmd s 0x00 [0x8E, 0xA6]) 0x00 [0x9C, 0xA6]"
  from assms obtain s2 where
    ptr: "set_tblptr s1 addr = (Inr (), s2)"
    by (auto simp add: write_flash_def s1_def Let_def split: prod.splits sum.splits)
  define s3 where "s3 = send_cmd (send_cmd s2 0x00 [0x84, 0xA6]) 0x00 [0x88, 0xA6]"
  define s4 where "s4 = nop (send_cmd (send_cmd s3 0x00 [0x88, 0xA6]) 0x00 [0x82, 0xA6]) 2"
  from assms ptr obtain s5 where
    erased: "(if erase then poll_loop s4 else Some s3) = Some s5"
    and s': "s' = emit (emit (emit (emit (snd (write_payload s5 data)) (Sda 0)) (Clocks 3)) (Clk 1)) (Sleep 1)"
    by (auto simp add: write_flash_def s1_def s3_def s4_def Let_def
        split: prod.splits sum.splits option.splits if_splits)
  have "extends s s1"
    unfolding s1_def by (intro extends_send_cmd extends_refl)
  also have "extends s1 s2"
    using ptr by (rule set_tblptr_Inr)
  also have "extends s2 s3"
    unfolding s3_def by (intro extends_send_cmd extends_refl)
  also have "extends s3 s5"
  proof (cases erase)
    case True
    have "extends s3 s4"
      unfolding s4_def by (intro extends_nop_2 extends_send_cmd extends_refl)
    also have "extends s4 s5"
      using erased True by (simp add: poll_loop_Some)
    finally show ?thesis .
  next
    case False
    then show ?thesis using erased by (simp add: extends_refl)
  qed
  also have "extends s5 s'"
    unfolding s'
    by (intro extends_emit quiet_line_events write_payload_extends)
  finally show ?thesis .
qed

lemma write_mem_brackets:
  assumes "write_mem s addr data eeprom erase = Some (Inr (), s')"
  shows "bracketed s s'"
proof -
  define s1 where "s1 = enter_prog s"
  from assms obtain u s2 where
    branch: "(if eeprom then write_eeprom s1 addr data else write_flash s1 addr data erase)
               = Some (Inr u, s2)"
    and s': "s' = exit_prog (send_cmd (nop (emit s2 (Clk 0)) 2) 0x00 [0x94, 0xA6])"
    by (auto simp add: write_mem_def s1_def Let_def
        split: prod.splits sum.splits option.splits if_splits)
  have "extends s1 s2"
    using branch by (cases eeprom) (simp_all add: write_eeprom_Some write_flash_Some)
  then have "extends s1 (send_cmd (nop (emit s2 (Clk 0)) 2) 0x00 [0x94, 0xA6])"
    by (intro extends_send_cmd extends_nop_2 extends_emit quiet_line_events)
  then show ?thesis
    unfolding s1_def using s' by (intro bracketedI) simp_all
qed

lemma foldl_aux_step_exit: "foldl aux_step levels exit_events = (0, 0)"
  by (cases levels) (simp add: exit_events_def)

lemma bracketed_not_programming: "bracketed s s' \<Longrightarrow> \<not> programming (trace s')"
  by (auto simp add: bracketed_iff programming_def foldl_aux_step_exit)

section \<open>Two runs of a program-memory write\<close>

lemma write_flash_two_bytes_run:
  "write_mem idle 0x800 [0x41, 0x42] False False =
     Some (Inr (),
       idle\<lparr>trace := enter_events @
          instrs [(0x00, [0x8E, 0xA6]), (0x00, [0x9C, 0xA6])] @ tblptr_events 0x800 @
          instrs [(0x00, [0x84, 0xA6]), (0x00, [0x88, 0xA6]), (0x0F, [0x41, 0x42])] @
          [Sda 0, Clocks 3, Clk 1, Sleep 1, Clk 0] @
          instrs [(0x00, [0x00, 0x00]), (0x00, [0x00, 0x00]), (0x00, [0x94, 0xA6])] @
          exit_events\<rparr>)"
  by (simp add: write_mem_def write_flash_def enter_prog_eq exit_prog_eq set_tblptr_ok
      send_cmd_eq nop_2 emit_def write_payload_2 instrs_Cons instrs_Nil idle_def)

lemma write_flash_four_bytes_run:
  "write_mem idle 0x800 [0x41, 0x42, 0x43, 0x44] False False =
     Some (Inr (),
       idle\<lparr>trace := enter_events @
          instrs [(0x00, [0x8E, 0xA6]), (0x00, [0x9C, 0xA6])] @ tblptr_events 0x800 @
          instrs [(0x00, [0x84, 0xA6]), (0x00, [0x88, 0xA6]),
                  (0x0D, [0x42, 0x41]), (0x0F, [0x44, 0x43])] @
          [Sda 0, Clocks 3, Clk 1, Sleep 1, Clk 0] @
          instrs [(0x00, [0x00, 0x00]), (0x00, [0x00, 0x00]), (0x00, [0x94, 0xA6])] @
          exit_events\<rparr>)"
  by (simp add: write_mem_def write_flash_def enter_prog_eq exit_prog_eq set_tblptr_ok
      send_cmd_eq nop_2 emit_def write_payload_4 instrs_Cons instrs_Nil idle_def)

section \<open>The claims\<close>

text \<open>
  C1. Every \<^verbatim>\<open>send_cmd(cmd, payload)\<close> first makes the 4-bit transfer of \<open>cmd\<close>. A
  two-byte payload is then sent as byte 1 followed by byte 0, a one-byte payload as that
  byte, and an empty payload as two empty writes, which put no byte on the wire. For a
  payload of any length, only the slices \<^verbatim>\<open>payload[1:2]\<close> and \<^verbatim>\<open>payload[0:1]\<close> (even
  length) or \<^verbatim>\<open>payload[0:1]\<close> (odd length) are sent. Nothing else happens to the session.
\<close>

theorem send_cmd_wire_order:
  "send_cmd s cmd [a, b] = s\<lparr>trace := trace s @ [WriteBits cmd 4, Write [b], Write [a]]\<rparr> \<and>
   send_cmd s cmd [a] = s\<lparr>trace := trace s @ [WriteBits cmd 4, Write [a]]\<rparr> \<and>
   send_cmd s cmd [] = s\<lparr>trace := trace s @ [WriteBits cmd 4, Write [], Write []]\<rparr> \<and>
   send_cmd s cmd payload =
     s\<lparr>trace := trace s @ WriteBits cmd 4 #
         (if even (length payload)
          then [Write (take 1 (drop 1 payload)), Write (take 1 payload)]
          else [Write (take 1 payload)])\<rparr>"
  using send_cmd_eq [of s cmd] by (simp add: cmd_events_def)

text \<open>
  C2, as amended. Whenever one of the six public operations (\<^verbatim>\<open>read\<close>, \<^verbatim>\<open>write\<close>,
  \<^verbatim>\<open>erase_panel\<close>, \<^verbatim>\<open>get_cfg_ID\<close>, \<^verbatim>\<open>get_loc_ID\<close>, \<^verbatim>\<open>get_dev_ID\<close>) returns normally,
  what it added to the trace starts with the entry sequence, ends with the exit sequence
  and drives no auxiliary line in between; the session is not in programming mode
  afterwards.
\<close>

theorem normal_return_closes_session:
  "(read s addr len eeprom = (Inr data, s') \<longrightarrow>
      bracketed s s' \<and> \<not> programming (trace s')) \<and>
   (write_mem s addr bytes eeprom erase = Some (Inr (), s') \<longrightarrow>
      bracketed s s' \<and> \<not> programming (trace s')) \<and>
   (erase_panel s panel = (Inr (), s') \<longrightarrow>
      bracketed s s' \<and> \<not> programming (trace s')) \<and>
   (get_cfg_ID s address = (Inr (), s') \<longrightarrow>
      bracketed s s' \<and> \<not> programming (trace s')) \<and>
   (get_loc_ID s address = (Inr (), s') \<longrightarrow>
      bracketed s s' \<and> \<not> programming (trace s')) \<and>
   (get_dev_ID s address = (Inr (), s') \<longrightarrow>
      bracketed s s' \<and> \<not> programming (trace s'))"
proof -
  have r: "read s addr len eeprom = (Inr data, s') \<longrightarrow> bracketed s s'"
    using read_brackets by blast
  have w: "write_mem s addr bytes eeprom erase = Some (Inr (), s') \<longrightarrow> bracketed s s'"
    using write_mem_brackets by blast
  have e: "erase_panel s panel = (Inr (), s') \<longrightarrow> bracketed s s'"
    using erase_panel_brackets by blast
  have c: "get_cfg_ID s address = (Inr (), s') \<longrightarrow> bracketed s s'"
    using get_cfg_ID_brackets by blast
  have l: "get_loc_ID s address = (Inr (), s') \<longrightarrow> bracketed s s'"
    using get_loc_ID_brackets by blast
  have d: "get_dev_ID s address = (Inr (), s') \<longrightarrow> bracketed s s'"
    using get_dev_ID_brackets by blast
  have idle_after: "bracketed s s' \<longrightarrow> \<not> programming (trace s')"
    using bracketed_not_programming by blast
  from r w e c l d idle_after show ?thesis
    by blast
qed

theorem normal_return_closes_session_witness:
  "fst (read idle 0x800 1 False) = Inr [0] \<and>
   bracketed idle (snd (read idle 0x800 1 False)) \<and>
   map_option fst (write_mem idle 0x800 [0x41, 0x42] False False) = Some (Inr ()) \<and>
   bracketed idle (snd (the (write_mem idle 0x800 [0x41, 0x42] False False))) \<and>
   fst (erase_panel idle [0x0F, 0x8F]) = Inr () \<and>
   bracketed idle (snd (erase_panel idle [0x0F, 0x8F])) \<and>
   fst (get_cfg_ID idle None) = Inr () \<and>
   bracketed idle (snd (get_cfg_ID idle None)) \<and>
   fst (get_loc_ID idle None) = Inr () \<and>
   bracketed idle (snd (get_loc_ID idle None)) \<and>
   fst (get_dev_ID idle None) = Inr () \<and>
   bracketed idle (snd (get_dev_ID idle None))"
proof -
  note closes = normal_return_closes_session
  have r: "fst (read idle 0x800 1 False) = Inr [0]"
    by (simp add: read_def enter_prog_eq exit_prog_eq set_tblptr_ok table_read_loop_eq
        length_py_range_1 idle_def)
  have w: "write_mem idle 0x800 [0x41, 0x42] False False =
             Some (Inr (), snd (the (write_mem idle 0x800 [0x41, 0x42] False False)))"
    by (simp add: write_flash_two_bytes_run)
  have e: "fst (erase_panel idle [0x0F, 0x8F]) = Inr ()"
    by (simp add: erase_panel_def enter_prog_eq exit_prog_eq set_tblptr_ok Let_def)
  have c: "fst (get_cfg_ID idle None) = Inr ()"
    by (simp add: get_cfg_ID_def enter_prog_eq exit_prog_eq set_tblptr_ok table_read_loop_eq
        length_py_range_1 unpack_H_def Let_def)
  have l: "fst (get_loc_ID idle None) = Inr ()"
    by (simp add: get_loc_ID_def enter_prog_eq exit_prog_eq loc_read_loop_eq
        length_py_range_1 unpack_H_def Let_def)
  have d: "fst (get_dev_ID idle None) = Inr ()"
    by (simp add: get_dev_ID_def enter_prog_eq exit_prog_eq set_tblptr_ok table_read_loop_eq
        Let_def)
  have "bracketed idle (snd (read idle 0x800 1 False))"
    using closes [where s = idle and addr = "0x800" and len = 1 and eeprom = False
        and data = "[0]" and s' = "snd (read idle 0x800 1 False)"] r
    by (simp add: prod_eq_iff)
  moreover have "bracketed idle (snd (the (write_mem idle 0x800 [0x41, 0x42] False False)))"
    using closes [where s = idle and addr = "0x800" and bytes = "[0x41, 0x42]"
        and eeprom = False and erase = False
        and s' = "snd (the (write_mem idle 0x800 [0x41, 0x42] False False))"] w
    by simp
  moreover have "bracketed idle (snd (erase_panel idle [0x0F, 0x8F]))"
    using closes [where s = idle and panel = "[0x0F, 0x8F]"
        and s' = "snd (erase_panel idle [0x0F, 0x8F])"] e
    by (simp add: prod_eq_iff)
  moreover have "bracketed idle (snd (get_cfg_ID idle None))"
    using closes [where s = idle and address = None and s' = "snd (get_cfg_ID idle None)"] c
    by (simp add: prod_eq_iff)
  moreover have "bracketed idle (snd (get_loc_ID idle None))"
    using closes [where s = idle and address = None and s' = "snd (get_loc_ID idle None)"] l
    by (simp add: prod_eq_iff)
  moreover have "bracketed idle (snd (get_dev_ID idle None))"
    using closes [where s = idle and address = None and s' = "snd (get_dev_ID idle None)"] d
    by (simp add: prod_eq_iff)
  ultimately show ?thesis
    using r w e c l d by (simp add: write_flash_two_bytes_run)
qed

text \<open>
  C2 as stated, with the exit sequence also on paths that raise after entry, fails: the
  class has no handler anywhere. Reading two EEPROM bytes from \<open>0xFFFF\<close> reads the first
  byte, then \<^verbatim>\<open>set_eeaddr(0x10000)\<close> raises \<^verbatim>\<open>OverflowError\<close> and the operation ends with
  both auxiliary lines still high.
\<close>

theorem exception_after_entry_counterexample:
  "read idle 0xFFFF 2 True =
     (Inl OverflowError,
      idle\<lparr>trace := enter_events @ instrs [(0x00, [0x9E, 0xA6]), (0x00, [0x9C, 0xA6])] @
           eeaddr_events 0xFFFF @
           instrs [(0x00, [0x80, 0xA6]), (0x00, [0x6E, 0xF5]), (0x00, [0x50, 0xA8]),
                   (0x00, [0x00, 0x00])] @ [Read 1]\<rparr>) \<and>
   programming (trace (snd (read idle 0xFFFF 2 True))) \<and>
   \<not> bracketed idle (snd (read idle 0xFFFF 2 True))"
proof -
  have run: "read idle 0xFFFF 2 True =
     (Inl OverflowError,
      idle\<lparr>trace := enter_events @ instrs [(0x00, [0x9E, 0xA6]), (0x00, [0x9C, 0xA6])] @
           eeaddr_events 0xFFFF @
           instrs [(0x00, [0x80, 0xA6]), (0x00, [0x6E, 0xF5]), (0x00, [0x50, 0xA8]),
                   (0x00, [0x00, 0x00])] @ [Read 1]\<rparr>)"
    by (simp add: read_def enter_prog_eq send_cmd_eq py_range_2 set_eeaddr_ok
        set_eeaddr_overflow nop_1 wire_read_1 instrs_Cons instrs_Nil idle_def)
  have left_open: "programming (trace (snd (read idle 0xFFFF 2 True)))"
    unfolding run
    by (simp add: programming_def idle_def enter_events_def eeaddr_events_def instrs_Cons
        instrs_Nil cmd_events_def)
  from left_open have "\<not> bracketed idle (snd (read idle 0xFFFF 2 True))"
    using bracketed_not_programming by blast
  with run left_open show ?thesis
    by simp
qed

text \<open>
  C3. The program-memory \<^verbatim>\<open>write\<close> run on the two bytes \<open>0x41 0x42\<close> and on the four
  bytes \<open>0x41 0x42 0x43 0x44\<close>. With four bytes both pairs reach the command encoder
  reversed (\<open>0x42 0x41\<close> under opcode \<open>0x0D\<close>, \<open>0x44 0x43\<close> under \<open>0x0F\<close>). With two
  bytes the only pair reaches it as given (\<open>0x41 0x42\<close> under \<open>0x0F\<close>): the branch for
  \<^verbatim>\<open>length == 2\<close> leaves out the reversal that the other branch applies to its last pair.
\<close>

theorem write_single_pair_unreversed:
  "write_mem idle 0x800 [0x41, 0x42] False False =
     Some (Inr (),
       idle\<lparr>trace := enter_events @
          instrs [(0x00, [0x8E, 0xA6]), (0x00, [0x9C, 0xA6])] @ tblptr_events 0x800 @
          instrs [(0x00, [0x84, 0xA6]), (0x00, [0x88, 0xA6]), (0x0F, [0x41, 0x42])] @
          [Sda 0, Clocks 3, Clk 1, Sleep 1, Clk 0] @
          instrs [(0x00, [0x00, 0x00]), (0x00, [0x00, 0x00]), (0x00, [0x94, 0xA6])] @
          exit_events\<rparr>) \<and>
   write_mem idle 0x800 [0x41, 0x42, 0x43, 0x44] False False =
     Some (Inr (),
       idle\<lparr>trace := enter_events @
          instrs [(0x00, [0x8E, 0xA6]), (0x00, [0x9C, 0xA6])] @ tblptr_events 0x800 @
          instrs [(0x00, [0x84, 0xA6]), (0x00, [0x88, 0xA6]),
                  (0x0D, [0x42, 0x41]), (0x0F, [0x44, 0x43])] @
          [Sda 0, Clocks 3, Clk 1, Sleep 1, Clk 0] @
          instrs [(0x00, [0x00, 0x00]), (0x00, [0x00, 0x00]), (0x00, [0x94, 0xA6])] @
          exit_events\<rparr>)"
  using write_flash_two_bytes_run write_flash_four_bytes_run by simp

text \<open>
  C4, as amended. For \<open>1 \<le> length\<close>, \<open>0 \<le> addr\<close> and \<open>addr + length \<le> 2 ^ 16\<close>, \<^verbatim>\<open>read\<close>
  from EEPROM enters programming mode, clears EEPGD and CFGS once, and then makes
  \<open>length\<close> rounds, for the offsets \<open>0, 1, \<dots>\<close> in turn, of: EEPROM address to
  \<open>addr + offset\<close>; \<^verbatim>\<open>BSF EECON1, RD\<close>; the two register moves \<^verbatim>\<open>MOVF EEDATA, W\<close> and
  \<^verbatim>\<open>MOVWF TABLAT\<close>, in an order this statement leaves open; one no-op; one byte read. It
  then leaves programming mode and returns the bytes in the order received.
\<close>

theorem read_eeprom_sequence:
  assumes "1 \<le> len" "0 \<le> addr" "addr + len \<le> 2 ^ 16"
  shows "\<exists>m1 m2. {m1, m2} = {[0x50, 0xA8], [0x6E, 0xF5]} \<and>
     read s addr len True =
       (Inr (map (rx s) [0..<nat len]),
        s\<lparr>trace := trace s @ enter_events @
             instrs [(0x00, [0x9E, 0xA6]), (0x00, [0x9C, 0xA6])] @
             concat (map (\<lambda>offset. eeprom_read_step m1 m2 (addr + offset)) [0..len - 1]) @
             exit_events,
          rx := (\<lambda>k. rx s (k + nat len))\<rparr>)"
proof -
  have in_range: "\<forall>offset \<in> set (py_range 0 len 1). 0 \<le> addr + offset \<and> addr + offset < 2 ^ 16"
    using assms by (auto simp add: py_range_step_1)
  have "read s addr len True =
       (Inr (map (rx s) [0..<nat len]),
        s\<lparr>trace := trace s @ enter_events @
             instrs [(0x00, [0x9E, 0xA6]), (0x00, [0x9C, 0xA6])] @
             concat (map (\<lambda>offset. eeprom_read_step [0x6E, 0xF5] [0x50, 0xA8] (addr + offset)) [0..len - 1]) @
             exit_events,
          rx := (\<lambda>k. rx s (k + nat len))\<rparr>)"
    using assms(1)
    by (simp add: read_def enter_prog_eq exit_prog_eq send_cmd_eq read_eeprom_loop_eq [OF in_range]
        length_py_range_1 instrs_Cons instrs_Nil)
      (simp add: py_range_step_1)
  moreover have "{[0x6E, 0xF5], [0x50, 0xA8]} = {[0x50, 0xA8], [0x6E, 0xF5 :: byte]}"
    by (rule insert_commute)
  ultimately show ?thesis by blast
qed

theorem read_eeprom_sequence_witness:
  "\<exists>m1 m2. {m1, m2} = {[0x50, 0xA8], [0x6E, 0xF5]} \<and>
     read lettered 0x10 2 True =
       (Inr [0x41, 0x42],
        lettered\<lparr>trace := enter_events @
             instrs [(0x00, [0x9E, 0xA6]), (0x00, [0x9C, 0xA6])] @
             eeprom_read_step m1 m2 0x10 @ eeprom_read_step m1 m2 0x11 @
             exit_events,
          rx := (\<lambda>k. rx lettered (k + 2))\<rparr>)"
proof -
  have upto_0_1: "[0..(1::int)] = [0, 1]"
    by code_simp
  have upt_2: "[0..<2] = [0, 1]"
    by code_simp
  show ?thesis
    using read_eeprom_sequence [of 2 "0x10" lettered]
    by (simp add: upto_0_1 upt_2 lettered_def)
qed

text \<open>
  C4 as stated fails. Reading one EEPROM byte at address 0 issues a single no-op before
  the byte is read, not two, so the trace is one instruction (three transport calls)
  shorter than the one the claim describes; the two register moves also go out in the
  other order. And an address past the 16-bit range raises \<^verbatim>\<open>OverflowError\<close>.
\<close>

theorem read_eeprom_counterexample:
  "read idle 0 1 True =
     (Inr [0],
      idle\<lparr>trace := enter_events @ instrs [(0x00, [0x9E, 0xA6]), (0x00, [0x9C, 0xA6])] @
           eeaddr_events 0 @
           instrs [(0x00, [0x80, 0xA6]), (0x00, [0x6E, 0xF5]), (0x00, [0x50, 0xA8]),
                   (0x00, [0x00, 0x00])] @ [Read 1] @
           exit_events\<rparr>) \<and>
   trace (snd (read idle 0 1 True)) \<noteq> spec_read_eeprom_trace 0 1 \<and>
   length (trace (snd (read idle 0 1 True))) + 3 = length (spec_read_eeprom_trace 0 1) \<and>
   fst (read idle 0x10000 1 True) = Inl OverflowError"
proof -
  have run: "read idle 0 1 True =
     (Inr [0],
      idle\<lparr>trace := enter_events @ instrs [(0x00, [0x9E, 0xA6]), (0x00, [0x9C, 0xA6])] @
           eeaddr_events 0 @
           instrs [(0x00, [0x80, 0xA6]), (0x00, [0x6E, 0xF5]), (0x00, [0x50, 0xA8]),
                   (0x00, [0x00, 0x00])] @ [Read 1] @
           exit_events\<rparr>)"
    by (simp add: read_def enter_prog_eq exit_prog_eq send_cmd_eq py_range_1 set_eeaddr_ok
        nop_1 wire_read_1 instrs_Cons instrs_Nil idle_def)
  have spec: "spec_read_eeprom_trace 0 1 =
     enter_events @ instrs [(0x00, [0x9E, 0xA6]), (0x00, [0x9C, 0xA6])] @
     eeaddr_events 0 @
     instrs [(0x00, [0x80, 0xA6]), (0x00, [0x50, 0xA8]), (0x00, [0x6E, 0xF5]),
             (0x00, [0x00, 0x00]), (0x00, [0x00, 0x00])] @ [Read 1] @
     exit_events"
    by (simp add: spec_read_eeprom_trace_def upto_0_0)
  have differ: "trace (snd (read idle 0 1 True)) \<noteq> spec_read_eeprom_trace 0 1"
    unfolding run spec
    by (simp add: idle_def enter_events_def instrs_Cons instrs_Nil cmd_events_def)
  have shorter: "length (trace (snd (read idle 0 1 True))) + 3 = length (spec_read_eeprom_trace 0 1)"
    unfolding run spec
    by (simp add: idle_def instrs_Cons instrs_Nil cmd_events_def)
  have overflow: "fst (read idle 0x10000 1 True) = Inl OverflowError"
    by (simp add: read_def enter_prog_eq send_cmd_eq py_range_1 set_eeaddr_overflow)
  show ?thesis
    using run differ shorter overflow by simp
qed

text \<open>
  C5. \<^verbatim>\<open>write\<close> with fewer than two bytes of data, or with an odd number of bytes,
  raises \<^verbatim>\<open>ValueError\<close> and leaves the session exactly as it was: no line is driven,
  nothing is sent or received, programming mode is not entered. The address and both flags
  are arbitrary.
\<close>

theorem write_rejects_bad_length:
  assumes "length data < 2 \<or> odd (length data)"
  shows "write_mem s addr data eeprom erase = Some (Inl ValueError, s)"
proof -
  have "int (length data) < 2 \<or> int (length data) mod 2 = 1"
    using assms by presburger
  then show ?thesis
    by (auto simp add: write_mem_def Let_def)
qed

theorem write_rejects_bad_length_witness:
  "write_mem idle 0x800 [0x41] False False = Some (Inl ValueError, idle) \<and>
   write_mem idle 0x800 [0x41, 0x42, 0x43] True True = Some (Inl ValueError, idle)"
  using write_rejects_bad_length [of "[0x41]" idle "0x800" False False]
    write_rejects_bad_length [of "[0x41, 0x42, 0x43]" idle "0x800" True True]
  by simp

text \<open>
  C6. \<^verbatim>\<open>read\<close> with length 0 raises \<^verbatim>\<open>ValueError\<close> and leaves the session exactly as
  it was, for every address and either memory.
\<close>

theorem read_zero_length: "read s addr 0 eeprom = (Inl ValueError, s)"
  by (simp add: read_def)

text \<open>
  C7, as amended. For an address that fits the 24-bit table pointer
  (\<open>0 \<le> addr < 2 ^ 24\<close>) and a length of at least one, \<^verbatim>\<open>read\<close> from program memory
  enters programming mode, loads the table pointer with \<open>addr\<close> once, issues exactly
  \<open>length\<close> table reads with post-increment (opcode \<open>0x09\<close>, payload one zero byte),
  each followed by the read of one byte, leaves programming mode, and returns the bytes in
  the order received.
\<close>

theorem read_flash_sequence:
  assumes "0 \<le> addr" "addr < 2 ^ 24" "1 \<le> len"
  shows "read s addr len False =
     (Inr (map (rx s) [0..<nat len]),
      s\<lparr>trace := trace s @ enter_events @ tblptr_events addr @
                  concat (replicate (nat len) (cmd_events 0x09 [0x00] @ [Read 1])) @ exit_events,
        rx := (\<lambda>k. rx s (k + nat len))\<rparr>)"
proof -
  have "len \<noteq> 0" using assms by simp
  then show ?thesis
    using assms
    by (simp add: read_def enter_prog_eq exit_prog_eq set_tblptr_ok table_read_loop_eq
        length_py_range_1)
qed

theorem read_flash_sequence_witness:
  "read lettered 0x800 4 False =
     (Inr [0x41, 0x42, 0x43, 0x44],
      lettered\<lparr>trace := enter_events @
           instrs [(0x00, [0x0E, 0x00]), (0x00, [0x6E, 0xF8]), (0x00, [0x0E, 0x08]),
                   (0x00, [0x6E, 0xF7]), (0x00, [0x0E, 0x00]), (0x00, [0x6E, 0xF6]),
                   (0x09, [0x00])] @ [Read 1] @
           instrs [(0x09, [0x00])] @ [Read 1] @
           instrs [(0x09, [0x00])] @ [Read 1] @
           instrs [(0x09, [0x00])] @ [Read 1] @ exit_events,
        rx := (\<lambda>k. rx lettered (k + 4))\<rparr>)"
proof -
  have bytes: "(2048 :: byte) = 0"
    by simp
  have four: "replicate 4 x = [x, x, x, x]" for x :: "event list"
    by (simp add: numeral_eq_Suc)
  show ?thesis
    using read_flash_sequence [of "0x800" 4 lettered]
    by (simp add: lettered_def tblptr_events_def instrs_Cons instrs_Nil upt_4 bytes four)
qed

text \<open>
  C7 as stated, for every address, fails: \<^verbatim>\<open>to_bytes(3, ...)\<close> in \<^verbatim>\<open>set_tblptr\<close>
  raises \<^verbatim>\<open>OverflowError\<close> on \<open>0x1000000\<close>. The entry sequence has run by then; no table
  read is issued, no byte is returned and the exit sequence does not run.
\<close>

theorem read_flash_overflow_counterexample:
  "read idle 0x1000000 1 False = (Inl OverflowError, idle\<lparr>trace := enter_events\<rparr>)"
  by (simp add: read_def enter_prog_eq set_tblptr_overflow idle_def)

text \<open>
  C8. For a two-byte panel identifier \<^verbatim>\<open>erase_panel\<close> does exactly this: enter
  programming mode; table pointer to \<open>0x3C0005\<close>; one table write (opcode \<open>0x0C\<close>) of
  panel byte 0 twice; table pointer to \<open>0x3C0004\<close>; one table write of panel byte 1 twice;
  two no-op core instructions; leave programming mode. Nothing is read back: there is no
  completion poll, and the target's pending answers are untouched.
\<close>

theorem erase_panel_sequence:
  "erase_panel s [p0, p1] =
     (Inr (),
      s\<lparr>trace := trace s @ enter_events @
           tblptr_events 0x3C0005 @ cmd_events 0x0C [p0, p0] @
           tblptr_events 0x3C0004 @ cmd_events 0x0C [p1, p1] @
           cmd_events 0x00 [0x00, 0x00] @ cmd_events 0x00 [0x00, 0x00] @
           exit_events\<rparr>) \<and>
   tblptr_events 0x3C0005 =
     instrs [(0x00, [0x0E, 0x3C]), (0x00, [0x6E, 0xF8]), (0x00, [0x0E, 0x00]),
             (0x00, [0x6E, 0xF7]), (0x00, [0x0E, 0x05]), (0x00, [0x6E, 0xF6])] \<and>
   tblptr_events 0x3C0004 =
     instrs [(0x00, [0x0E, 0x3C]), (0x00, [0x6E, 0xF8]), (0x00, [0x0E, 0x00]),
             (0x00, [0x6E, 0xF7]), (0x00, [0x0E, 0x04]), (0x00, [0x6E, 0xF6])]"
proof -
  have run: "erase_panel s [p0, p1] =
     (Inr (),
      s\<lparr>trace := trace s @ enter_events @
           tblptr_events 0x3C0005 @ cmd_events 0x0C [p0, p0] @
           tblptr_events 0x3C0004 @ cmd_events 0x0C [p1, p1] @
           cmd_events 0x00 [0x00, 0x00] @ cmd_events 0x00 [0x00, 0x00] @
           exit_events\<rparr>)"
    by (simp add: erase_panel_def enter_prog_eq exit_prog_eq set_tblptr_ok send_cmd_eq
        slice_0_1 slice_1_2 numeral_2_eq_2)
  show ?thesis
    using run tblptr_events_fixed(1, 2) by (intro conjI)
qed

text \<open>
  C9. \<^verbatim>\<open>get_loc_ID\<close> without an address starts at \<open>0x200000\<close> and makes exactly eight
  rounds of: table pointer to \<open>0x200000\<close> again, one table read without increment (opcode
  \<open>0x08\<close>), one byte read. The eight bytes are then taken two by two as four 16-bit words
  in the host's byte order, which are printed.
\<close>

theorem get_loc_ID_default:
  "get_loc_ID s None =
     (Inr (),
      s\<lparr>trace := trace s @ enter_events @
           concat (replicate 8 (tblptr_events 0x200000 @ cmd_events 0x08 [0x00] @ [Read 1])) @
           exit_events,
        rx := (\<lambda>k. rx s (k + 8)),
        stdout := stdout s @
           [(''LOC_ID'', 1, word16 (little_endian s) (rx s 0) (rx s 1)),
            (''LOC_ID'', 2, word16 (little_endian s) (rx s 2) (rx s 3)),
            (''LOC_ID'', 3, word16 (little_endian s) (rx s 4) (rx s 5)),
            (''LOC_ID'', 4, word16 (little_endian s) (rx s 6) (rx s 7))]\<rparr>) \<and>
   tblptr_events 0x200000 =
     instrs [(0x00, [0x0E, 0x20]), (0x00, [0x6E, 0xF8]), (0x00, [0x0E, 0x00]),
             (0x00, [0x6E, 0xF7]), (0x00, [0x0E, 0x00]), (0x00, [0x6E, 0xF6])]"
proof -
  have "get_loc_ID s None =
     (Inr (),
      s\<lparr>trace := trace s @ enter_events @
           concat (replicate 8 (tblptr_events 0x200000 @ cmd_events 0x08 [0x00] @ [Read 1])) @
           exit_events,
        rx := (\<lambda>k. rx s (k + 8)),
        stdout := stdout s @
           [(''LOC_ID'', 1, word16 (little_endian s) (rx s 0) (rx s 1)),
            (''LOC_ID'', 2, word16 (little_endian s) (rx s 2) (rx s 3)),
            (''LOC_ID'', 3, word16 (little_endian s) (rx s 4) (rx s 5)),
            (''LOC_ID'', 4, word16 (little_endian s) (rx s 6) (rx s 7))]\<rparr>)"
    by (simp add: get_loc_ID_def enter_prog_eq exit_prog_eq loc_read_loop_eq
        length_py_range_1 upt_8 unpack_H_4)
  then show ?thesis
    using tblptr_events_fixed(3) by (intro conjI)
qed

text \<open>
  C10. On the EEPROM path of \<^verbatim>\<open>write\<close> the \<^verbatim>\<open>erase\<close> argument is never consulted:
  the whole outcome (the error or normal return, the transport trace, what is left of the
  target's answers, or not returning at all) is the same with and without it.
\<close>

theorem write_eeprom_ignores_erase:
  "write_mem s addr data True True = write_mem s addr data True False"
  unfolding write_mem_def by simp

end
